theory Spec2Isabelle
  imports Main
begin

section \<open>Time, zones and the moment library\<close>

text \<open>
  Instants are JavaScript time values: milliseconds since the epoch, as \<open>int\<close>.
  A calendar date (the text \<open>YYYY-MM-DD\<close>) is the number of its day, counted from
  1970-01-01, which was a Thursday.

  The moment and moment-timezone libraries are not part of the repository, so what the
  code asks of them is a parameter of the model:
  \<^item> \<open>serverOffset\<close>: the process-local clock, in minutes east of UTC, taken as fixed
    (it is what \<open>moment(startDate)\<close>, \<open>hour(9)\<close> and \<open>startOf('day')\<close> work in); a
    process zone that changes its offset inside the date range (daylight saving) is not
    covered: there the instants of the code differ from those of \<open>generateTimeSlots\<close>;
  \<^item> \<open>zoneOffset z t\<close>: the minutes east of UTC that \<open>moment(t).tz(z)\<close> shows at the
    instant \<open>t\<close>;
  \<^item> \<open>parseInZone z d txt\<close>: the instant of
    \<open>moment.tz(`${date} ${txt}`, 'YYYY-MM-DD h:mm A', z)\<close> for the date \<open>d\<close>, and \<open>None\<close>
    when the library yields an invalid moment (every comparison with it is false).
\<close>

record moment_env =
  serverOffset :: int
  zoneOffset :: "string \<Rightarrow> int \<Rightarrow> int"
  parseInZone :: "string \<Rightarrow> int \<Rightarrow> string \<Rightarrow> int option"

definition msPerMinute :: int where
  "msPerMinute = 60000"

definition msPerHour :: int where
  "msPerHour = 3600000"

definition msPerDay :: int where
  "msPerDay = 86400000"

text \<open>\<open>moment(t).tz(z)\<close>: the wall clock of zone \<open>z\<close> at \<open>t\<close>, as milliseconds.\<close>

definition wallClock :: "moment_env \<Rightarrow> string \<Rightarrow> int \<Rightarrow> int" where
  "wallClock env z t = t + zoneOffset env z t * msPerMinute"

text \<open>\<open>.day()\<close>: 0 is Sunday, 6 is Saturday.\<close>

definition localDay :: "moment_env \<Rightarrow> string \<Rightarrow> int \<Rightarrow> int" where
  "localDay env z t = (wallClock env z t div msPerDay + 4) mod 7"

text \<open>\<open>.format('YYYY-MM-DD')\<close>: the local date, as a day number.\<close>

definition localDate :: "moment_env \<Rightarrow> string \<Rightarrow> int \<Rightarrow> int" where
  "localDate env z t = wallClock env z t div msPerDay"

section \<open>Records of the data store\<close>

text \<open>
  The \<open>availability\<close> column is JSON: every field may be absent. \<open>available\<close> keeps
  the three cases apart: absent, false (any falsy value) and true (any truthy value); the
  code only asks for its truthiness. A start or end text is falsy when it is absent or
  empty.
\<close>

record window =
  available :: "bool option"
  w_start :: "string option"
  w_end :: "string option"

record availability =
  weekdays :: "window option"
  weekends :: "window option"

text \<open>A row of \<open>calendars\<close> joined with its user (\<open>users!inner(*)\<close>).\<close>

record calendar =
  cal_id :: int
  user_id :: string
  timezone :: "string option"
  cal_availability :: "availability option"

record meeting =
  calendar_id :: int
  start_time :: int
  end_time :: int
  status :: string

text \<open>A time slot; the \<open>formatted\<close> texts of the source are derived from \<open>slot_start\<close>
  and are left out.\<close>

record slot =
  slot_start :: int
  slot_end :: int

text \<open>JavaScript truthiness of an optional flag: absent and false are both falsy.\<close>

definition truthyFlag :: "bool option \<Rightarrow> bool" where
  "truthyFlag b = (b = Some True)"

section \<open>checkTimeAgainstAvailability\<close>

definition isWeekend :: "moment_env \<Rightarrow> string \<Rightarrow> int \<Rightarrow> bool" where
  "isWeekend env z t = (localDay env z t = 0 \<or> localDay env z t = 6)"

definition isSameOrAfter :: "int \<Rightarrow> int option \<Rightarrow> bool" where
  "isSameOrAfter t other = (case other of None \<Rightarrow> False | Some a \<Rightarrow> a \<le> t)"

definition isSameOrBefore :: "int \<Rightarrow> int option \<Rightarrow> bool" where
  "isSameOrBefore t other = (case other of None \<Rightarrow> False | Some b \<Rightarrow> t \<le> b)"

definition checkTimeAgainstAvailability ::
  "moment_env \<Rightarrow> int \<Rightarrow> int \<Rightarrow> availability option \<Rightarrow> string option \<Rightarrow> bool" where
  "checkTimeAgainstAvailability env startTime endTime avail tz =
     (case avail of
        None \<Rightarrow> False
      | Some av \<Rightarrow>
         (case tz of
            None \<Rightarrow> False
          | Some z \<Rightarrow>
             if z = [] then False
             else
               let availSettings = (if isWeekend env z startTime then weekends av else weekdays av)
               in if isWeekend env z startTime \<and>
                     (case availSettings of None \<Rightarrow> True | Some w \<Rightarrow> \<not> truthyFlag (available w))
                  then False
                  else
                    (case availSettings of
                       None \<Rightarrow> False
                     | Some w \<Rightarrow>
                        (case w_start w of
                           None \<Rightarrow> False
                         | Some s \<Rightarrow>
                            (case w_end w of
                               None \<Rightarrow> False
                             | Some e \<Rightarrow>
                                if s = [] \<or> e = [] then False
                                else
                                  isSameOrAfter startTime
                                    (parseInZone env z (localDate env z startTime) s) \<and>
                                  isSameOrBefore endTime
                                    (parseInZone env z (localDate env z startTime) e))))))"

section \<open>generateTimeSlots\<close>

text \<open>Moments of the process-local clock, \<open>off\<close> minutes east of UTC.\<close>

definition dateMoment :: "int \<Rightarrow> int \<Rightarrow> int" where
  "dateMoment off d = d * msPerDay - off * msPerMinute"

definition startOfDay :: "int \<Rightarrow> int \<Rightarrow> int" where
  "startOfDay off t = ((t + off * msPerMinute) div msPerDay) * msPerDay - off * msPerMinute"

definition endOfDay :: "int \<Rightarrow> int \<Rightarrow> int" where
  "endOfDay off t = startOfDay off t + (msPerDay - 1)"

text \<open>\<open>moment(t).hour(h).minute(0).second(0)\<close>: the milliseconds of \<open>t\<close> stay.\<close>

definition atHour :: "int \<Rightarrow> int \<Rightarrow> int \<Rightarrow> int" where
  "atHour off h t = startOfDay off t + h * msPerHour + (t + off * msPerMinute) mod 1000"

text \<open>\<open>t.add(1, 'day').startOf('day')\<close>.\<close>

definition nextDay :: "int \<Rightarrow> int \<Rightarrow> int" where
  "nextDay off t = startOfDay off (t + msPerDay)"

text \<open>
  The inner loop. Its condition \<open>slotStart.add(interval, 'minutes').isSameOrBefore(dayEnd)\<close>
  moves \<open>slotStart\<close> forward by 30 minutes before it compares, on every round, the
  first one too.
\<close>

function slotLoop :: "int \<Rightarrow> int \<Rightarrow> int \<Rightarrow> slot list" where
  "slotLoop slotStart dayEnd duration =
     (if slotStart + 30 * msPerMinute \<le> dayEnd
      then (if slotStart + 30 * msPerMinute + duration * msPerMinute \<le> dayEnd
            then [\<lparr>slot_start = slotStart + 30 * msPerMinute,
                   slot_end = slotStart + 30 * msPerMinute + duration * msPerMinute\<rparr>]
            else [])
           @ slotLoop (slotStart + 30 * msPerMinute) dayEnd duration
      else [])"
  by pat_completeness auto
termination
  by (relation "measure (\<lambda>(slotStart, dayEnd, duration). nat (dayEnd - slotStart))")
     (auto simp: msPerMinute_def)

text \<open>The outer loop: one round for each day, while \<open>start.isSameOrBefore(end)\<close>.\<close>

function dayLoop :: "int \<Rightarrow> int \<Rightarrow> int \<Rightarrow> int \<Rightarrow> slot list" where
  "dayLoop off start endM duration =
     (if start \<le> endM
      then slotLoop (atHour off 9 start) (atHour off 17 start) duration
           @ dayLoop off (nextDay off start) endM duration
      else [])"
  by pat_completeness auto
termination
proof (relation "measure (\<lambda>(off, start, endM, duration). nat (endM - start + 1))")
  show "wf (measure (\<lambda>(off, start, endM, duration). nat (endM - start + 1)))" by simp
next
  fix off start endM duration :: int
  assume le: "start \<le> endM"
  define x where "x = start + off * msPerMinute"
  have "0 \<le> x mod msPerDay" "x mod msPerDay < msPerDay"
    by (simp_all add: msPerDay_def)
  moreover have "x = (x div msPerDay) * msPerDay + x mod msPerDay"
    by simp
  ultimately have bound: "x < (x div msPerDay) * msPerDay + msPerDay"
    by linarith
  have "start + msPerDay + off * msPerMinute = x + 1 * msPerDay"
    by (simp add: x_def)
  then have "(start + msPerDay + off * msPerMinute) div msPerDay = x div msPerDay + 1"
    by (simp only: div_mult_self1 div_add_self2 div_mult_self3) (simp add: msPerDay_def)
  then have "nextDay off start = (x div msPerDay) * msPerDay + msPerDay - off * msPerMinute"
    by (simp add: nextDay_def startOfDay_def algebra_simps)
  with bound have "start < nextDay off start"
    by (simp add: x_def)
  with le show "((off, nextDay off start, endM, duration), (off, start, endM, duration))
          \<in> measure (\<lambda>(off, start, endM, duration). nat (endM - start + 1))"
    by simp
qed

text \<open>The equations of the two loops are unfolded by hand, one round at a time.\<close>

declare slotLoop.simps [simp del] dayLoop.simps [simp del]

definition generateTimeSlots :: "int \<Rightarrow> int \<Rightarrow> int \<Rightarrow> int \<Rightarrow> slot list" where
  "generateTimeSlots off startDate endDate duration =
     dayLoop off (dateMoment off startDate) (endOfDay off (dateMoment off endDate)) duration"


section \<open>The data store\<close>

text \<open>
  The two queries of \<open>findGroupAvailability\<close>. A response carries \<open>data\<close> and
  \<open>error\<close>; on an error \<open>data\<close> is null, which is \<open>None\<close> here. Rows come in the
  order of the table (the queries ask for none).
\<close>

record database =
  calendars_table :: "calendar list"
  meetings_table :: "meeting list"
  calendars_error :: bool
  meetings_error :: bool

definition selectCalendars :: "database \<Rightarrow> string list \<Rightarrow> calendar list option" where
  "selectCalendars db userIds =
     (if calendars_error db then None
      else Some (filter (\<lambda>cal. user_id cal \<in> set userIds) (calendars_table db)))"

text \<open>\<open>end_time >= `${startDate}T00:00:00Z`\<close>, \<open>start_time <= `${endDate}T23:59:59Z`\<close>,
  \<open>status = 'confirmed'\<close>.\<close>

definition selectMeetings :: "database \<Rightarrow> int list \<Rightarrow> int \<Rightarrow> int \<Rightarrow> meeting list option" where
  "selectMeetings db calendarIds startDate endDate =
     (if meetings_error db then None
      else Some (filter (\<lambda>m. calendar_id m \<in> set calendarIds
                             \<and> startDate * msPerDay \<le> end_time m
                             \<and> start_time m \<le> endDate * msPerDay + (msPerDay - 1000)
                             \<and> status m = ''confirmed'')
                        (meetings_table db)))"

section \<open>findGroupAvailability\<close>

datatype js_error = TypeError

record user_avail =
  ua_timezone :: "string option"
  ua_availability :: "availability option"

text \<open>The two \<open>forEach\<close> loops: a later calendar of a user overwrites an earlier one.\<close>

definition groupMeetingsByUser :: "calendar list \<Rightarrow> meeting list \<Rightarrow> (string \<rightharpoonup> meeting list)" where
  "groupMeetingsByUser calendars meetings =
     foldl (\<lambda>byUser cal. byUser(user_id cal \<mapsto> filter (\<lambda>m. calendar_id m = cal_id cal) meetings))
           Map.empty calendars"

definition groupAvailabilityByUser :: "calendar list \<Rightarrow> (string \<rightharpoonup> user_avail)" where
  "groupAvailabilityByUser calendars =
     foldl (\<lambda>byUser cal. byUser(user_id cal \<mapsto>
              \<lparr>ua_timezone = timezone cal, ua_availability = cal_availability cal\<rparr>))
           Map.empty calendars"

text \<open>The test inside \<open>userMeetings.some\<close>.\<close>

definition slotConflictsMeeting :: "slot \<Rightarrow> meeting \<Rightarrow> bool" where
  "slotConflictsMeeting slot meeting =
     ((slot_start slot < end_time meeting \<and> slot_end slot > start_time meeting)
      \<or> slot_start slot = start_time meeting
      \<or> slot_end slot = end_time meeting)"

definition hasConflict :: "slot \<Rightarrow> meeting list \<Rightarrow> bool" where
  "hasConflict slot userMeetings = list_ex (slotConflictsMeeting slot) userMeetings"

text \<open>The test inside \<open>userIds.every\<close>.\<close>

definition userIsFree ::
  "moment_env \<Rightarrow> (string \<rightharpoonup> user_avail) \<Rightarrow> (string \<rightharpoonup> meeting list) \<Rightarrow> slot \<Rightarrow> string \<Rightarrow> bool" where
  "userIsFree env availabilityByUser meetingsByUser slot userId =
     (case availabilityByUser userId of
        None \<Rightarrow> False
      | Some userAvail \<Rightarrow>
          if \<not> checkTimeAgainstAvailability env (slot_start slot) (slot_end slot)
                 (ua_availability userAvail) (ua_timezone userAvail)
          then False
          else \<not> hasConflict slot
                   (case meetingsByUser userId of None \<Rightarrow> [] | Some userMeetings \<Rightarrow> userMeetings))"

text \<open>
  The response of the meetings query is destructured as \<open>{ data: meetings, meetingsError }\<close>;
  a response has no field \<open>meetingsError\<close>, so the test of it never fires, and after a
  failed query \<open>meetings\<close> is null: \<open>meetings.filter\<close> then throws a TypeError (the
  calendars are not empty at that point).
\<close>

definition findGroupAvailability ::
  "moment_env \<Rightarrow> database \<Rightarrow> string list \<Rightarrow> int \<Rightarrow> int \<Rightarrow> int \<Rightarrow> js_error + slot list" where
  "findGroupAvailability env db userIds startDate endDate duration =
     (case selectCalendars db userIds of
        None \<Rightarrow> Inr []
      | Some calendars \<Rightarrow>
          if calendars = [] then Inr []
          else
            (case selectMeetings db (map cal_id calendars) startDate endDate of
               None \<Rightarrow> Inl TypeError
             | Some meetings \<Rightarrow>
                 Inr (filter
                        (\<lambda>slot. list_all
                                  (userIsFree env (groupAvailabilityByUser calendars)
                                     (groupMeetingsByUser calendars meetings) slot)
                                  userIds)
                        (generateTimeSlots (serverOffset env) startDate endDate duration))))"

text \<open>The calendar of a user that comes last in the fetched rows.\<close>

definition lastCalendarOf :: "calendar list \<Rightarrow> string \<Rightarrow> calendar option" where
  "lastCalendarOf calendars userId =
     (if filter (\<lambda>cal. user_id cal = userId) calendars = [] then None
      else Some (last (filter (\<lambda>cal. user_id cal = userId) calendars)))"

section \<open>processDateRangeForm\<close>

text \<open>
  The checks at the head of the form handler. A date text that moment cannot read is
  \<open>None\<close>. The pending sessions live in \<open>global.pendingGroupSessions\<close>: the object may
  never have been assigned, or hold no entry for the user, or hold one. Reading an entry
  of the unassigned object throws a TypeError, which the handler catches and answers with
  its general error text.
\<close>

datatype session_store = StoreUnassigned | NoEntry | HasEntry

datatype form_outcome = Reply string | AvailableTimes int int

definition processDateRangeForm ::
  "int \<Rightarrow> int option \<Rightarrow> int option \<Rightarrow> session_store \<Rightarrow> form_outcome" where
  "processDateRangeForm off startDate endDate sessions =
     (case startDate of
        None \<Rightarrow> Reply ''Invalid date format. Please use YYYY-MM-DD.''
      | Some s \<Rightarrow>
         (case endDate of
            None \<Rightarrow> Reply ''Invalid date format. Please use YYYY-MM-DD.''
          | Some e \<Rightarrow>
              if dateMoment off e < dateMoment off s
              then Reply ''End date must be after start date.''
              else
                (case sessions of
                   StoreUnassigned \<Rightarrow>
                     Reply ''There was an error processing your date range. Please try again later.''
                 | NoEntry \<Rightarrow>
                     Reply ''Your session has expired. Please start over with `/group-schedule`.''
                 | HasEntry \<Rightarrow> AvailableTimes s e)))"

section \<open>A concrete environment and store\<close>

text \<open>
  For the closed examples: every zone is UTC and the process clock is UTC. The parser of
  moment is forgiving: in a text without any digit, such as \<open>garbage\<close>, it finds neither
  hour nor minute, leaves both at zero and reads 00:00, a valid moment; a text whose hour
  overflows, such as \<open>25:00 PM\<close>, gives an invalid moment. Of the texts with digits the
  examples use \<open>9:00 AM\<close>, \<open>5:00 PM\<close> and \<open>25:00 PM\<close> only; the table gives no reading
  for any other.
\<close>

definition clockMinutes :: "string \<Rightarrow> int option" where
  "clockMinutes clockText =
     (if clockText = ''9:00 AM'' then Some 540
      else if clockText = ''5:00 PM'' then Some 1020
      else if list_all (\<lambda>c. c \<notin> set ''0123456789'') clockText then Some 0
      else None)"

definition utcEnv :: moment_env where
  "utcEnv = \<lparr>serverOffset = 0,
             zoneOffset = (\<lambda>z t. 0),
             parseInZone = (\<lambda>z d txt. map_option (\<lambda>m. d * msPerDay + m * msPerMinute) (clockMinutes txt))\<rparr>"

text \<open>Day 19723 is Monday 2024-01-01; day 19728 is Saturday 2024-01-06.\<close>

definition clock :: "int \<Rightarrow> int \<Rightarrow> int \<Rightarrow> int" where
  "clock d h m = d * msPerDay + h * msPerHour + m * msPerMinute"

definition nineToFive :: window where
  "nineToFive = \<lparr>available = None, w_start = Some ''9:00 AM'', w_end = Some ''5:00 PM''\<rparr>"

definition officeHours :: availability where
  "officeHours = \<lparr>weekdays = Some nineToFive,
                  weekends = Some \<lparr>available = Some False, w_start = None, w_end = None\<rparr>\<rparr>"

definition openWeekend :: window where
  "openWeekend = \<lparr>available = Some True, w_start = Some ''9:00 AM'', w_end = Some ''5:00 PM''\<rparr>"

definition everyDay :: availability where
  "everyDay = \<lparr>weekdays = Some nineToFive, weekends = Some openWeekend\<rparr>"

definition flaggedOff :: window where
  "flaggedOff = \<lparr>available = Some False, w_start = Some ''9:00 AM'', w_end = Some ''5:00 PM''\<rparr>"

text \<open>
  Alice has office hours on weekdays and is away at weekends; her first calendar holds one
  confirmed meeting on Monday, 10:00 to 11:00. Carol is there from 9 to 5 on every day.
  Bob keeps the weekday hours; the start text of his weekend window is \<open>25:00 PM\<close>.
  Dave's weekday window starts at the text \<open>garbage\<close>.
\<close>

definition aliceCal :: calendar where
  "aliceCal = \<lparr>cal_id = 1, user_id = ''alice'', timezone = Some ''UTC'',
               cal_availability = Some officeHours\<rparr>"

definition aliceSecondCal :: calendar where
  "aliceSecondCal = \<lparr>cal_id = 2, user_id = ''alice'', timezone = Some ''UTC'',
               cal_availability = Some officeHours\<rparr>"

definition carolCal :: calendar where
  "carolCal = \<lparr>cal_id = 4, user_id = ''carol'', timezone = Some ''UTC'',
               cal_availability = Some everyDay\<rparr>"

definition overflowWeekend :: window where
  "overflowWeekend = \<lparr>available = Some True, w_start = Some ''25:00 PM'',
                      w_end = Some ''5:00 PM''\<rparr>"

definition bobCal :: calendar where
  "bobCal = \<lparr>cal_id = 3, user_id = ''bob'', timezone = Some ''UTC'',
             cal_availability = Some \<lparr>weekdays = Some nineToFive,
                                       weekends = Some overflowWeekend\<rparr>\<rparr>"

definition garbledWeekdays :: window where
  "garbledWeekdays = \<lparr>available = None, w_start = Some ''garbage'', w_end = Some ''5:00 PM''\<rparr>"

definition daveCal :: calendar where
  "daveCal = \<lparr>cal_id = 5, user_id = ''dave'', timezone = Some ''UTC'',
              cal_availability = Some \<lparr>weekdays = Some garbledWeekdays, weekends = None\<rparr>\<rparr>"

definition booking :: meeting where
  "booking = \<lparr>calendar_id = 1, start_time = clock 19723 10 0, end_time = clock 19723 11 0,
              status = ''confirmed''\<rparr>"

definition bookedDb :: database where
  "bookedDb = \<lparr>calendars_table = [aliceCal], meetings_table = [booking],
               calendars_error = False, meetings_error = False\<rparr>"

definition twoCalendarDb :: database where
  "twoCalendarDb = \<lparr>calendars_table = [aliceCal, aliceSecondCal], meetings_table = [booking],
               calendars_error = False, meetings_error = False\<rparr>"

definition weekendDb :: database where
  "weekendDb = \<lparr>calendars_table = [carolCal, bobCal], meetings_table = [],
               calendars_error = False, meetings_error = False\<rparr>"

definition garbledDb :: database where
  "garbledDb = \<lparr>calendars_table = [aliceCal, daveCal], meetings_table = [],
               calendars_error = False, meetings_error = False\<rparr>"

section \<open>Facts about the evaluator and the generator\<close>

lemma check_unfold:
  "checkTimeAgainstAvailability env st en (Some av) (Some z) =
     (z \<noteq> [] \<and>
      (\<exists>w s e. (if isWeekend env z st then weekends av else weekdays av) = Some w
         \<and> (isWeekend env z st \<longrightarrow> available w = Some True)
         \<and> w_start w = Some s \<and> s \<noteq> [] \<and> w_end w = Some e \<and> e \<noteq> []
         \<and> isSameOrAfter st (parseInZone env z (localDate env z st) s)
         \<and> isSameOrBefore en (parseInZone env z (localDate env z st) e)))"
proof (cases "isWeekend env z st")
  case True
  show ?thesis
  proof (cases "weekends av")
    case None
    with True show ?thesis by (simp add: checkTimeAgainstAvailability_def)
  next
    case (Some w)
    with True show ?thesis
      by (cases "w_start w"; cases "w_end w")
         (simp_all add: checkTimeAgainstAvailability_def truthyFlag_def)
  qed
next
  case False
  show ?thesis
  proof (cases "weekdays av")
    case None
    with False show ?thesis by (simp add: checkTimeAgainstAvailability_def)
  next
    case (Some w)
    with False show ?thesis
      by (cases "w_start w"; cases "w_end w")
         (simp_all add: checkTimeAgainstAvailability_def)
  qed
qed

lemma check_None: 
  "\<not> checkTimeAgainstAvailability env st en None tz"
  "\<not> checkTimeAgainstAvailability env st en avail None"
  "\<not> checkTimeAgainstAvailability env st en avail (Some [])"
  by (simp_all add: checkTimeAgainstAvailability_def split: option.splits)

lemma startOfDay_dateMoment: "startOfDay off (dateMoment off d) = dateMoment off d"
  by (simp add: startOfDay_def dateMoment_def msPerDay_def)

lemma slotLoop_mem:
  "s \<in> set (slotLoop a e d) \<longleftrightarrow>
     (\<exists>k\<ge>1. slot_start s = a + k * (30 * msPerMinute)
          \<and> slot_end s = slot_start s + d * msPerMinute
          \<and> slot_start s \<le> e \<and> slot_end s \<le> e)"
proof (induction a e d rule: slotLoop.induct)
  case (1 a e d)
  show ?case
  proof (cases "a + 30 * msPerMinute \<le> e")
    case False
    have "\<not> (a + k * (30 * msPerMinute) \<le> e)" if "1 \<le> k" for k :: int
    proof -
      from that have "1 * (30 * msPerMinute) \<le> k * (30 * msPerMinute)"
        by (intro mult_right_mono) (simp_all add: msPerMinute_def)
      with False show ?thesis by simp
    qed
    then have "\<not> (\<exists>k\<ge>1. slot_start s = a + k * (30 * msPerMinute)
          \<and> slot_end s = slot_start s + d * msPerMinute
          \<and> slot_start s \<le> e \<and> slot_end s \<le> e)"
      by auto
    moreover from False have "slotLoop a e d = []"
      by (subst slotLoop.simps) simp
    ultimately show ?thesis by simp
  next
    case True
    let ?first = "\<lparr>slot_start = a + 30 * msPerMinute,
                    slot_end = a + 30 * msPerMinute + d * msPerMinute\<rparr>"
    let ?P = "\<lambda>k. slot_start s = a + k * (30 * msPerMinute)
          \<and> slot_end s = slot_start s + d * msPerMinute
          \<and> slot_start s \<le> e \<and> slot_end s \<le> e"
    have unfold: "s \<in> set (slotLoop a e d) \<longleftrightarrow>
        (a + 30 * msPerMinute + d * msPerMinute \<le> e \<and> s = ?first)
        \<or> s \<in> set (slotLoop (a + 30 * msPerMinute) e d)"
      using True by (subst slotLoop.simps) auto
    have rest: "s \<in> set (slotLoop (a + 30 * msPerMinute) e d) \<longleftrightarrow> (\<exists>k\<ge>1. ?P (k + 1))"
      unfolding "1.IH" [OF True] by (simp add: algebra_simps)
    have first: "(a + 30 * msPerMinute + d * msPerMinute \<le> e \<and> s = ?first) \<longleftrightarrow> ?P 1"
      using True by (cases s) auto
    have split: "(\<exists>k\<ge>1. ?P k) \<longleftrightarrow> ?P 1 \<or> (\<exists>k\<ge>1. ?P (k + 1))"
    proof
      assume "\<exists>k\<ge>1. ?P k"
      then obtain k where k: "1 \<le> k" "?P k" by blast
      show "?P 1 \<or> (\<exists>k\<ge>1. ?P (k + 1))"
      proof (cases "k = 1")
        case True
        with k show ?thesis by blast
      next
        case False
        with k have "1 \<le> k - 1" "?P ((k - 1) + 1)" by simp_all
        then show ?thesis by blast
      qed
    next
      assume "?P 1 \<or> (\<exists>k\<ge>1. ?P (k + 1))"
      then show "\<exists>k\<ge>1. ?P k"
      proof
        assume "?P 1"
        then show ?thesis by (intro exI [of _ 1]) simp
      next
        assume "\<exists>k\<ge>1. ?P (k + 1)"
        then obtain k where "1 \<le> k" "?P (k + 1)" by blast
        then show ?thesis by (intro exI [of _ "k + 1"]) simp
      qed
    qed
    show ?thesis unfolding unfold rest first split ..
  qed
qed

lemma atHour_dateMoment: "atHour off h (dateMoment off d) = dateMoment off d + h * msPerHour"
proof -
  have "(d * msPerDay) mod 1000 = 0"
    by (simp add: msPerDay_def)
  then show ?thesis
    by (simp add: atHour_def startOfDay_dateMoment) (simp add: dateMoment_def)
qed

lemma nextDay_dateMoment: "nextDay off (dateMoment off d) = dateMoment off (d + 1)"
proof -
  have "dateMoment off d + msPerDay = dateMoment off (d + 1)"
    by (simp add: dateMoment_def algebra_simps)
  then show ?thesis by (simp add: nextDay_def startOfDay_dateMoment)
qed

lemma day_in_range: "dateMoment off d \<le> endOfDay off (dateMoment off e) \<longleftrightarrow> d \<le> e"
proof -
  have "d * msPerDay \<le> e * msPerDay + (msPerDay - 1) \<longleftrightarrow> d \<le> e"
    unfolding msPerDay_def by arith
  then show ?thesis
    by (simp add: endOfDay_def startOfDay_dateMoment) (simp add: dateMoment_def)
qed

lemma dayLoop_days:
  "dayLoop off (dateMoment off d) (endOfDay off (dateMoment off e)) dur
     = concat (map (\<lambda>i. slotLoop (dateMoment off i + 9 * msPerHour)
                                  (dateMoment off i + 17 * msPerHour) dur) [d..e])"
proof (induction d e rule: upto.induct)
  case (1 i j)
  show ?case
  proof (cases "i \<le> j")
    case False
    then show ?thesis
      by (subst dayLoop.simps) (simp add: day_in_range)
  next
    case True
    then have "[i..j] = i # [i + 1..j]" by (simp add: upto_rec1)
    with True "1.IH" [OF True] show ?thesis
      by (subst dayLoop.simps)
         (simp add: day_in_range atHour_dateMoment nextDay_dateMoment)
  qed
qed

lemma generateTimeSlots_mem:
  "s \<in> set (generateTimeSlots off sd ed dur) \<longleftrightarrow>
     (\<exists>day k. sd \<le> day \<and> day \<le> ed \<and> 1 \<le> k
        \<and> slot_start s = dateMoment off day + 9 * msPerHour + k * (30 * msPerMinute)
        \<and> slot_end s = slot_start s + dur * msPerMinute
        \<and> slot_start s \<le> dateMoment off day + 17 * msPerHour
        \<and> slot_end s \<le> dateMoment off day + 17 * msPerHour)"
  unfolding generateTimeSlots_def dayLoop_days
  by (auto simp add: slotLoop_mem)

lemma generateTimeSlots_reversed:
  assumes "endDate < startDate"
  shows "generateTimeSlots off startDate endDate duration = []"
proof -
  from assms have "endDate + 1 \<le> startDate" by simp
  then have "(endDate + 1) * msPerDay \<le> startDate * msPerDay"
    by (simp add: msPerDay_def)
  then have "endOfDay off (dateMoment off endDate) < dateMoment off startDate"
    by (simp add: endOfDay_def startOfDay_dateMoment) (simp add: dateMoment_def algebra_simps)
  then show ?thesis
    unfolding generateTimeSlots_def by (subst dayLoop.simps) simp
qed

section \<open>The engine reads the last calendar of each user\<close>

lemma lastCalendarOf_Nil: "lastCalendarOf [] u = None"
  by (simp add: lastCalendarOf_def)

lemma lastCalendarOf_snoc:
  "lastCalendarOf (cs @ [c]) u = (if user_id c = u then Some c else lastCalendarOf cs u)"
  by (simp add: lastCalendarOf_def)

lemma groupAvailabilityByUser_last:
  "groupAvailabilityByUser cs u =
     map_option (\<lambda>cal. \<lparr>ua_timezone = timezone cal, ua_availability = cal_availability cal\<rparr>)
       (lastCalendarOf cs u)"
proof (induction cs rule: rev_induct)
  case Nil
  show ?case by (simp add: groupAvailabilityByUser_def lastCalendarOf_Nil)
next
  case (snoc c cs)
  then show ?case
    by (simp add: groupAvailabilityByUser_def lastCalendarOf_snoc)
qed

lemma groupMeetingsByUser_last:
  "groupMeetingsByUser cs ms u =
     map_option (\<lambda>cal. filter (\<lambda>m. calendar_id m = cal_id cal) ms) (lastCalendarOf cs u)"
proof (induction cs rule: rev_induct)
  case Nil
  show ?case by (simp add: groupMeetingsByUser_def lastCalendarOf_Nil)
next
  case (snoc c cs)
  then show ?case
    by (simp add: groupMeetingsByUser_def lastCalendarOf_snoc)
qed

lemma userIsFree_last:
  "userIsFree env (groupAvailabilityByUser cals) (groupMeetingsByUser cals ms) slot u
     = (\<exists>cal. lastCalendarOf cals u = Some cal
        \<and> checkTimeAgainstAvailability env (slot_start slot) (slot_end slot)
             (cal_availability cal) (timezone cal)
        \<and> \<not> hasConflict slot (filter (\<lambda>m. calendar_id m = cal_id cal) ms))"
  by (cases "lastCalendarOf cals u")
     (simp_all add: userIsFree_def groupAvailabilityByUser_last groupMeetingsByUser_last)

lemma engine_result:
  assumes "selectCalendars db userIds = Some cals" and "cals \<noteq> []"
    and "selectMeetings db (map cal_id cals) sd ed = Some ms"
  shows "findGroupAvailability env db userIds sd ed dur =
           Inr (filter (\<lambda>slot. \<forall>u\<in>set userIds.
                   userIsFree env (groupAvailabilityByUser cals) (groupMeetingsByUser cals ms) slot u)
                 (generateTimeSlots (serverOffset env) sd ed dur))"
  using assms by (simp add: findGroupAvailability_def list_all_iff)

lemma engine_slot_free:
  assumes "findGroupAvailability env db userIds sd ed dur = Inr slots"
    and "selectCalendars db userIds = Some cals"
    and "s \<in> set slots" and "u \<in> set userIds"
  shows "\<exists>cal. lastCalendarOf cals u = Some cal
        \<and> checkTimeAgainstAvailability env (slot_start s) (slot_end s)
             (cal_availability cal) (timezone cal)"
proof (cases "cals = []")
  case True
  with assms show ?thesis by (simp add: findGroupAvailability_def)
next
  case False
  show ?thesis
  proof (cases "selectMeetings db (map cal_id cals) sd ed")
    case None
    with assms False show ?thesis by (simp add: findGroupAvailability_def)
  next
    case (Some ms)
    from engine_result [OF assms(2) False Some, of env dur] assms(1)
    have "slots = filter (\<lambda>slot. \<forall>u\<in>set userIds.
                   userIsFree env (groupAvailabilityByUser cals) (groupMeetingsByUser cals ms) slot u)
                 (generateTimeSlots (serverOffset env) sd ed dur)"
      by simp
    with assms(3,4) have "userIsFree env (groupAvailabilityByUser cals) (groupMeetingsByUser cals ms) s u"
      by simp
    then show ?thesis unfolding userIsFree_last by blast
  qed
qed

lemma engine_last:
  assumes "selectCalendars db userIds = Some cals" and "cals \<noteq> []"
    and "selectMeetings db (map cal_id cals) sd ed = Some ms"
  shows "findGroupAvailability env db userIds sd ed dur =
           Inr (filter
                  (\<lambda>slot. \<forall>u\<in>set userIds.
                     (case lastCalendarOf cals u of
                        None \<Rightarrow> False
                      | Some cal \<Rightarrow>
                          checkTimeAgainstAvailability env (slot_start slot) (slot_end slot)
                            (cal_availability cal) (timezone cal)
                          \<and> \<not> hasConflict slot (filter (\<lambda>m. calendar_id m = cal_id cal) ms)))
                  (generateTimeSlots (serverOffset env) sd ed dur))"
proof -
  have "\<And>slot u. userIsFree env (groupAvailabilityByUser cals) (groupMeetingsByUser cals ms) slot u
      = (case lastCalendarOf cals u of
                        None \<Rightarrow> False
                      | Some cal \<Rightarrow>
                          checkTimeAgainstAvailability env (slot_start slot) (slot_end slot)
                            (cal_availability cal) (timezone cal)
                          \<and> \<not> hasConflict slot (filter (\<lambda>m. calendar_id m = cal_id cal) ms))"
    unfolding userIsFree_last by (simp split: option.splits)
  then show ?thesis
    unfolding engine_result [OF assms] by simp
qed

section \<open>Claims\<close>

subsection \<open>C1: inside the window, both ends inclusive\<close>

text \<open>
  C1, as stated, fails: on Saturday 2024-01-06 a weekend window that is present, with the
  readable times 9:00 AM and 5:00 PM but \<open>available = false\<close>, rejects the range
  10:00 to 10:30, which lies inside the window.
\<close>

theorem C1_counterexample:
  "weekends \<lparr>weekdays = Some nineToFive, weekends = Some flaggedOff\<rparr> = Some flaggedOff
   \<and> isWeekend utcEnv ''UTC'' (clock 19728 10 0)
   \<and> parseInZone utcEnv ''UTC'' (localDate utcEnv ''UTC'' (clock 19728 10 0)) ''9:00 AM''
        = Some (clock 19728 9 0)
   \<and> parseInZone utcEnv ''UTC'' (localDate utcEnv ''UTC'' (clock 19728 10 0)) ''5:00 PM''
        = Some (clock 19728 17 0)
   \<and> clock 19728 9 0 \<le> clock 19728 10 0 \<and> clock 19728 10 30 \<le> clock 19728 17 0
   \<and> \<not> checkTimeAgainstAvailability utcEnv (clock 19728 10 0) (clock 19728 10 30)
          (Some \<lparr>weekdays = Some nineToFive, weekends = Some flaggedOff\<rparr>) (Some ''UTC'')"
  by (simp add: checkTimeAgainstAvailability_def isWeekend_def localDay_def localDate_def
      wallClock_def utcEnv_def clock_def clockMinutes_def flaggedOff_def nineToFive_def
      truthyFlag_def msPerDay_def msPerHour_def msPerMinute_def)

text \<open>
  C1, amended: when the availability object and the timezone are there, the window of the
  day class of the range's start is present, its \<open>available\<close> flag is true if that class
  is the weekend, and both of its times are read by moment, then the evaluator returns
  true if and only if the start is at or after the open instant and the end is at or before
  the close instant. So a range that starts exactly at the open instant and fits the
  window is accepted, and a range that ends one minute after the close instant is not.
\<close>

theorem C1_within_window_iff:
  assumes "avail = Some av" and "tz = Some z" and "z \<noteq> []"
    and "(if isWeekend env z startTime then weekends av else weekdays av) = Some w"
    and "isWeekend env z startTime \<longrightarrow> available w = Some True"
    and "w_start w = Some s" and "s \<noteq> []" and "w_end w = Some e" and "e \<noteq> []"
    and "parseInZone env z (localDate env z startTime) s = Some openM"
    and "parseInZone env z (localDate env z startTime) e = Some closeM"
  shows "(checkTimeAgainstAvailability env startTime endTime avail tz
            \<longleftrightarrow> openM \<le> startTime \<and> endTime \<le> closeM)
       \<and> (startTime = openM \<and> endTime \<le> closeM
            \<longrightarrow> checkTimeAgainstAvailability env startTime endTime avail tz)
       \<and> (endTime = closeM + msPerMinute
            \<longrightarrow> \<not> checkTimeAgainstAvailability env startTime endTime avail tz)"
proof -
  have iff: "checkTimeAgainstAvailability env startTime endTime avail tz
            \<longleftrightarrow> openM \<le> startTime \<and> endTime \<le> closeM"
  proof (cases "isWeekend env z startTime")
    case True
    with assms show ?thesis
      by (simp add: checkTimeAgainstAvailability_def truthyFlag_def isSameOrAfter_def
          isSameOrBefore_def)
  next
    case False
    with assms show ?thesis
      by (simp add: checkTimeAgainstAvailability_def isSameOrAfter_def isSameOrBefore_def)
  qed
  then show ?thesis by (auto simp add: msPerMinute_def)
qed

text \<open>
  C1, witness: Saturday 2024-01-06, a weekend window 9:00 AM to 5:00 PM that is marked
  available, in UTC. The range 09:00 to 09:30 is accepted; the range 16:31 to 17:01 is
  not.
\<close>

theorem C1_within_window_iff_witness:
  "isWeekend utcEnv ''UTC'' (clock 19728 9 0)
   \<and> weekends everyDay = Some openWeekend
   \<and> available openWeekend = Some True
   \<and> checkTimeAgainstAvailability utcEnv (clock 19728 9 0) (clock 19728 9 30)
       (Some everyDay) (Some ''UTC'')
   \<and> \<not> checkTimeAgainstAvailability utcEnv (clock 19728 16 31) (clock 19728 17 1)
       (Some everyDay) (Some ''UTC'')"
proof -
  have wk: "isWeekend utcEnv ''UTC'' (clock 19728 9 0)"
           "isWeekend utcEnv ''UTC'' (clock 19728 16 31)"
    by (simp_all add: isWeekend_def localDay_def wallClock_def utcEnv_def clock_def
        msPerDay_def msPerHour_def msPerMinute_def)
  have sat: "weekends everyDay = Some openWeekend"
    by (simp add: everyDay_def)
  have win: "(if isWeekend utcEnv ''UTC'' (clock 19728 9 0) then weekends everyDay
              else weekdays everyDay) = Some openWeekend"
            "(if isWeekend utcEnv ''UTC'' (clock 19728 16 31) then weekends everyDay
              else weekdays everyDay) = Some openWeekend"
    using wk sat by simp_all
  have flag: "available openWeekend = Some True"
    by (simp add: openWeekend_def)
  have texts: "w_start openWeekend = Some ''9:00 AM''" "w_end openWeekend = Some ''5:00 PM''"
    by (simp_all add: openWeekend_def)
  have p1: "parseInZone utcEnv ''UTC'' (localDate utcEnv ''UTC'' (clock 19728 9 0)) ''9:00 AM''
              = Some (clock 19728 9 0)"
           "parseInZone utcEnv ''UTC'' (localDate utcEnv ''UTC'' (clock 19728 9 0)) ''5:00 PM''
              = Some (clock 19728 17 0)"
    by (simp_all add: utcEnv_def localDate_def wallClock_def clock_def clockMinutes_def
        msPerDay_def msPerHour_def msPerMinute_def)
  have p2: "parseInZone utcEnv ''UTC'' (localDate utcEnv ''UTC'' (clock 19728 16 31)) ''9:00 AM''
              = Some (clock 19728 9 0)"
           "parseInZone utcEnv ''UTC'' (localDate utcEnv ''UTC'' (clock 19728 16 31)) ''5:00 PM''
              = Some (clock 19728 17 0)"
    by (simp_all add: utcEnv_def localDate_def wallClock_def clock_def clockMinutes_def
        msPerDay_def msPerHour_def msPerMinute_def)
  have a: "clock 19728 9 30 \<le> clock 19728 17 0"
    by (simp add: clock_def msPerDay_def msPerHour_def msPerMinute_def)
  have b: "clock 19728 17 1 = clock 19728 17 0 + msPerMinute"
    by (simp add: clock_def msPerDay_def msPerHour_def msPerMinute_def)
  from C1_within_window_iff [OF refl refl _ win(1) impI [OF flag] texts(1) _ texts(2) _ p1(1) p1(2),
      of "clock 19728 9 30"] a
  have one: "checkTimeAgainstAvailability utcEnv (clock 19728 9 0) (clock 19728 9 30)
       (Some everyDay) (Some ''UTC'')"
    by blast
  from C1_within_window_iff [OF refl refl _ win(2) impI [OF flag] texts(1) _ texts(2) _ p2(1) p2(2),
      of "clock 19728 17 1"] b
  have two: "\<not> checkTimeAgainstAvailability utcEnv (clock 19728 16 31) (clock 19728 17 1)
       (Some everyDay) (Some ''UTC'')"
    by blast
  from wk(1) sat flag one two show ?thesis by simp
qed

subsection \<open>C2: the conflict test\<close>

text \<open>
  C2: the conflict detector reports a conflict if and only if some booked range overlaps
  the candidate strictly (the candidate starts before the booked range ends and ends
  after it starts), or starts at the same instant as the candidate, or ends at the same
  instant as the candidate.
\<close>

theorem C2_conflict_iff:
  "hasConflict candidate booked \<longleftrightarrow>
     (\<exists>b\<in>set booked.
        (slot_start candidate < end_time b \<and> slot_end candidate > start_time b)
        \<or> (slot_start candidate = start_time b \<or> slot_end candidate = end_time b))"
  by (auto simp add: hasConflict_def list_ex_iff slotConflictsMeeting_def)

subsection \<open>C3: a slot that only touches a booking\<close>

text \<open>
  C3, as stated, fails: the candidate slot 10:00 to 10:30 against the booked range 10:30
  to 11:00 is not a conflict.
\<close>

theorem C3_counterexample:
  "\<not> hasConflict \<lparr>slot_start = clock 19723 10 0, slot_end = clock 19723 10 30\<rparr>
        [\<lparr>calendar_id = 1, start_time = clock 19723 10 30, end_time = clock 19723 11 0,
          status = ''confirmed''\<rparr>]"
  by (simp add: hasConflict_def slotConflictsMeeting_def clock_def msPerDay_def msPerHour_def
      msPerMinute_def)

text \<open>
  C3, amended: a candidate slot that merely abuts a booked range (its end is the start of
  the booking, or its start is the end of the booking, both of positive length) is not
  flagged. With the single booking 10:00 to 11:00 on Monday 2024-01-01, the engine
  excludes exactly the 30-minute slots that start at 10:00 and at 10:30; the slots 09:30
  to 10:00 and 11:00 to 11:30 are generated and stay.
\<close>

theorem C3_abutting_slot_is_kept:
  "(slot_start c < slot_end c \<and> start_time b < end_time b
      \<and> (slot_end c = start_time b \<or> slot_start c = end_time b)
      \<longrightarrow> \<not> hasConflict c [b])
   \<and> findGroupAvailability utcEnv bookedDb [''alice''] 19723 19723 30
       = Inr (filter (\<lambda>s. slot_start s \<noteq> clock 19723 10 0 \<and> slot_start s \<noteq> clock 19723 10 30)
                (generateTimeSlots 0 19723 19723 30))
   \<and> \<lparr>slot_start = clock 19723 9 30, slot_end = clock 19723 10 0\<rparr>
        \<in> set (generateTimeSlots 0 19723 19723 30)
   \<and> \<lparr>slot_start = clock 19723 11 0, slot_end = clock 19723 11 30\<rparr>
        \<in> set (generateTimeSlots 0 19723 19723 30)"
proof -
  have general: "slot_start c < slot_end c \<and> start_time b < end_time b
      \<and> (slot_end c = start_time b \<or> slot_start c = end_time b)
      \<longrightarrow> \<not> hasConflict c [b]"
    by (auto simp add: hasConflict_def slotConflictsMeeting_def)
  have scenario: "findGroupAvailability utcEnv bookedDb [''alice''] 19723 19723 30
       = Inr (filter (\<lambda>s. slot_start s \<noteq> clock 19723 10 0 \<and> slot_start s \<noteq> clock 19723 10 30)
                (generateTimeSlots 0 19723 19723 30))"
    by code_simp
  have before: "\<lparr>slot_start = clock 19723 9 30, slot_end = clock 19723 10 0\<rparr>
        \<in> set (generateTimeSlots 0 19723 19723 30)"
    by code_simp
  have after: "\<lparr>slot_start = clock 19723 11 0, slot_end = clock 19723 11 30\<rparr>
        \<in> set (generateTimeSlots 0 19723 19723 30)"
    by code_simp
  from general scenario before after show ?thesis by blast
qed

text \<open>
  C3, witness: the slot 09:30 to 10:00 against the booking 10:00 to 11:00.
\<close>

theorem C3_abutting_slot_is_kept_witness:
  "\<not> hasConflict \<lparr>slot_start = clock 19723 9 30, slot_end = clock 19723 10 0\<rparr> [booking]"
proof -
  have "slot_start \<lparr>slot_start = clock 19723 9 30, slot_end = clock 19723 10 0\<rparr>
          < slot_end \<lparr>slot_start = clock 19723 9 30, slot_end = clock 19723 10 0\<rparr>
        \<and> start_time booking < end_time booking
        \<and> (slot_end \<lparr>slot_start = clock 19723 9 30, slot_end = clock 19723 10 0\<rparr>
              = start_time booking
           \<or> slot_start \<lparr>slot_start = clock 19723 9 30, slot_end = clock 19723 10 0\<rparr>
              = end_time booking)"
    by (simp add: booking_def clock_def msPerDay_def msPerHour_def msPerMinute_def)
  with C3_abutting_slot_is_kept
    [of "\<lparr>slot_start = clock 19723 9 30, slot_end = clock 19723 10 0\<rparr>" booking]
  show ?thesis by blast
qed

subsection \<open>C4: the step points of the generator\<close>

text \<open>
  C4: the code does not emit the slot at 09:00. For every date range and duration, the
  slots emitted are those that start at 09:00 plus \<open>k\<close> times 30 minutes of a day of the
  range, for \<open>k\<close> from 1 on, and end by 17:00 of that day; the step point \<open>k = 0\<close> is
  missing, so no slot of a day starts at 09:00 of that day. On Monday 2024-01-01 with 30
  minutes, where a slot at 09:00 would fit, the slots emitted start at 09:30, 10:00, and so
  on up to 16:30.
\<close>

theorem C4_nine_oclock_slot_missing:
  "(s \<in> set (generateTimeSlots off startDate endDate duration) \<longleftrightarrow>
     (\<exists>day k. startDate \<le> day \<and> day \<le> endDate \<and> 1 \<le> k
        \<and> slot_start s = dateMoment off day + 9 * msPerHour + k * (30 * msPerMinute)
        \<and> slot_end s = slot_start s + duration * msPerMinute
        \<and> slot_start s \<le> dateMoment off day + 17 * msPerHour
        \<and> slot_end s \<le> dateMoment off day + 17 * msPerHour))
   \<and> \<lparr>slot_start = dateMoment off d + 9 * msPerHour, slot_end = anyEnd\<rparr>
        \<notin> set (generateTimeSlots off d d duration)
   \<and> clock 19723 9 0 + 30 * msPerMinute \<le> clock 19723 17 0
   \<and> \<lparr>slot_start = clock 19723 9 0, slot_end = clock 19723 9 30\<rparr>
        \<notin> set (generateTimeSlots 0 19723 19723 30)
   \<and> map slot_start (generateTimeSlots 0 19723 19723 30)
        = map (\<lambda>k. clock 19723 9 30 + k * (30 * msPerMinute)) [0..14]"
proof -
  have emitted: "s \<in> set (generateTimeSlots off startDate endDate duration) \<longleftrightarrow>
     (\<exists>day k. startDate \<le> day \<and> day \<le> endDate \<and> 1 \<le> k
        \<and> slot_start s = dateMoment off day + 9 * msPerHour + k * (30 * msPerMinute)
        \<and> slot_end s = slot_start s + duration * msPerMinute
        \<and> slot_start s \<le> dateMoment off day + 17 * msPerHour
        \<and> slot_end s \<le> dateMoment off day + 17 * msPerHour)"
    by (rule generateTimeSlots_mem)
  have nine: "\<lparr>slot_start = dateMoment off d + 9 * msPerHour, slot_end = anyEnd\<rparr>
        \<notin> set (generateTimeSlots off d d duration)"
  proof
    assume "\<lparr>slot_start = dateMoment off d + 9 * msPerHour, slot_end = anyEnd\<rparr>
        \<in> set (generateTimeSlots off d d duration)"
    then obtain day k :: int where "d \<le> day" "day \<le> d" "1 \<le> k"
      and "dateMoment off d + 9 * msPerHour
             = dateMoment off day + 9 * msPerHour + k * (30 * msPerMinute)"
      unfolding generateTimeSlots_mem by auto
    then show False by (simp add: msPerMinute_def)
  qed
  have fits: "clock 19723 9 0 + 30 * msPerMinute \<le> clock 19723 17 0"
    by (simp add: clock_def msPerDay_def msPerHour_def msPerMinute_def)
  have monday: "\<lparr>slot_start = clock 19723 9 0, slot_end = clock 19723 9 30\<rparr>
        \<notin> set (generateTimeSlots 0 19723 19723 30)"
    by code_simp
  have starts: "map slot_start (generateTimeSlots 0 19723 19723 30)
        = map (\<lambda>k. clock 19723 9 30 + k * (30 * msPerMinute)) [0..14]"
    by code_simp
  from emitted nine fits monday starts show ?thesis by blast
qed

subsection \<open>C5: a class without a usable window\<close>

text \<open>
  C5, as stated, fails: on Monday 2024-01-01 a weekday window whose \<open>available\<close>
  field is false, with the times 9:00 AM and 5:00 PM, accepts the range 10:00 to 10:30.
\<close>

theorem C5_counterexample:
  "\<not> isWeekend utcEnv ''UTC'' (clock 19723 10 0)
   \<and> weekdays \<lparr>weekdays = Some flaggedOff, weekends = None\<rparr> = Some flaggedOff
   \<and> available flaggedOff = Some False
   \<and> checkTimeAgainstAvailability utcEnv (clock 19723 10 0) (clock 19723 10 30)
          (Some \<lparr>weekdays = Some flaggedOff, weekends = None\<rparr>) (Some ''UTC'')"
  by (simp add: checkTimeAgainstAvailability_def isWeekend_def localDay_def localDate_def
      wallClock_def utcEnv_def clock_def clockMinutes_def flaggedOff_def
      truthyFlag_def isSameOrAfter_def isSameOrBefore_def msPerDay_def msPerHour_def
      msPerMinute_def)

text \<open>
  C5, amended: for every availability pattern and every range, the evaluator returns
  false if the window of the day class of the range's start is absent, or its start or
  end field is missing, or, for the weekend class only, its \<open>available\<close> field is not
  true. On weekdays the \<open>available\<close> field is not read: the result is the same whatever
  the field holds.
\<close>

theorem C5_closed_class_is_unavailable:
  "(settings = (if isWeekend env z startTime then weekends av else weekdays av)
      \<and> (settings = None
          \<or> (\<exists>w. settings = Some w
                \<and> (w_start w = None \<or> w_end w = None
                   \<or> (isWeekend env z startTime \<and> available w \<noteq> Some True))))
      \<longrightarrow> \<not> checkTimeAgainstAvailability env startTime endTime (Some av) (Some z))
   \<and> (\<not> isWeekend env z startTime
      \<longrightarrow> checkTimeAgainstAvailability env startTime endTime
            (Some (av\<lparr>weekdays := Some (w0\<lparr>available := flag\<rparr>)\<rparr>)) (Some z)
          = checkTimeAgainstAvailability env startTime endTime
            (Some (av\<lparr>weekdays := Some w0\<rparr>)) (Some z))"
proof (intro conjI impI)
  assume closed: "settings = (if isWeekend env z startTime then weekends av else weekdays av)
      \<and> (settings = None
          \<or> (\<exists>w. settings = Some w
                \<and> (w_start w = None \<or> w_end w = None
                   \<or> (isWeekend env z startTime \<and> available w \<noteq> Some True))))"
  show "\<not> checkTimeAgainstAvailability env startTime endTime (Some av) (Some z)"
  proof
    assume "checkTimeAgainstAvailability env startTime endTime (Some av) (Some z)"
    then obtain w s e where "(if isWeekend env z startTime then weekends av else weekdays av) = Some w"
        "w_start w = Some s" "w_end w = Some e"
        "isWeekend env z startTime \<longrightarrow> available w = Some True"
      unfolding check_unfold by blast
    with closed show False by auto
  qed
next
  assume "\<not> isWeekend env z startTime"
  then show "checkTimeAgainstAvailability env startTime endTime
            (Some (av\<lparr>weekdays := Some (w0\<lparr>available := flag\<rparr>)\<rparr>)) (Some z)
          = checkTimeAgainstAvailability env startTime endTime
            (Some (av\<lparr>weekdays := Some w0\<rparr>)) (Some z)"
    by (simp add: check_unfold)
qed

text \<open>
  C5, witness: Saturday 2024-01-06 against a weekend window with \<open>available = false\<close>;
  and Monday 2024-01-01, 10:00 to 10:30, against the weekday window 9:00 AM to 5:00 PM, with
  the field absent and with the field false.
\<close>

theorem C5_closed_class_is_unavailable_witness:
  "isWeekend utcEnv ''UTC'' (clock 19728 10 0)
   \<and> weekends officeHours = Some \<lparr>available = Some False, w_start = None, w_end = None\<rparr>
   \<and> \<not> checkTimeAgainstAvailability utcEnv (clock 19728 10 0) (clock 19728 10 30)
          (Some officeHours) (Some ''UTC'')
   \<and> \<not> isWeekend utcEnv ''UTC'' (clock 19723 10 0)
   \<and> checkTimeAgainstAvailability utcEnv (clock 19723 10 0) (clock 19723 10 30)
          (Some (officeHours\<lparr>weekdays := Some nineToFive\<rparr>)) (Some ''UTC'')
   \<and> checkTimeAgainstAvailability utcEnv (clock 19723 10 0) (clock 19723 10 30)
          (Some (officeHours\<lparr>weekdays := Some (nineToFive\<lparr>available := Some False\<rparr>)\<rparr>))
          (Some ''UTC'')"
proof -
  have wk: "isWeekend utcEnv ''UTC'' (clock 19728 10 0)"
    by (simp add: isWeekend_def localDay_def wallClock_def utcEnv_def clock_def
        msPerDay_def msPerHour_def msPerMinute_def)
  have win: "weekends officeHours = Some \<lparr>available = Some False, w_start = None, w_end = None\<rparr>"
    by (simp add: officeHours_def)
  have closed: "weekends officeHours
             = (if isWeekend utcEnv ''UTC'' (clock 19728 10 0) then weekends officeHours
                else weekdays officeHours)
         \<and> (weekends officeHours = None
           \<or> (\<exists>w. weekends officeHours = Some w
               \<and> (w_start w = None \<or> w_end w = None
                  \<or> (isWeekend utcEnv ''UTC'' (clock 19728 10 0) \<and> available w \<noteq> Some True))))"
    using wk win by simp
  from C5_closed_class_is_unavailable
    [where settings = "weekends officeHours" and env = utcEnv and z = "''UTC''"
       and startTime = "clock 19728 10 0" and endTime = "clock 19728 10 30"
       and av = officeHours] closed
  have sat: "\<not> checkTimeAgainstAvailability utcEnv (clock 19728 10 0) (clock 19728 10 30)
          (Some officeHours) (Some ''UTC'')"
    by blast
  have wd: "\<not> isWeekend utcEnv ''UTC'' (clock 19723 10 0)"
    by (simp add: isWeekend_def localDay_def wallClock_def utcEnv_def clock_def
        msPerDay_def msPerHour_def msPerMinute_def)
  have plain: "checkTimeAgainstAvailability utcEnv (clock 19723 10 0) (clock 19723 10 30)
          (Some (officeHours\<lparr>weekdays := Some nineToFive\<rparr>)) (Some ''UTC'')"
    by (simp add: checkTimeAgainstAvailability_def isWeekend_def localDay_def localDate_def
      wallClock_def utcEnv_def clock_def clockMinutes_def officeHours_def nineToFive_def
      isSameOrAfter_def isSameOrBefore_def msPerDay_def msPerHour_def msPerMinute_def)
  from C5_closed_class_is_unavailable
    [where env = utcEnv and z = "''UTC''" and startTime = "clock 19723 10 0"
       and endTime = "clock 19723 10 30" and av = officeHours and ?w0.0 = nineToFive
       and flag = "Some False"] wd plain
  have flagged: "checkTimeAgainstAvailability utcEnv (clock 19723 10 0) (clock 19723 10 30)
          (Some (officeHours\<lparr>weekdays := Some (nineToFive\<lparr>available := Some False\<rparr>)\<rparr>))
          (Some ''UTC'')"
    by blast
  from wk win sat wd plain flagged show ?thesis by simp
qed

subsection \<open>C6: no weekend slot for an owner who is away at weekends\<close>

text \<open>
  C6: if the pattern that the engine reads for an owner of the request (that of the
  owner's last fetched calendar) has \<open>weekends.available = false\<close>, then no slot that the
  engine returns starts on a Saturday or a Sunday of that owner's timezone, whatever the
  other owners and the bookings are.
\<close>

theorem C6_no_weekend_slot:
  assumes "findGroupAvailability env db userIds startDate endDate duration = Inr slots"
    and "selectCalendars db userIds = Some cals"
    and "u \<in> set userIds" and "lastCalendarOf cals u = Some cal"
    and "cal_availability cal = Some av" and "weekends av = Some w"
    and "available w = Some False"
    and "timezone cal = Some z"
    and "s \<in> set slots"
  shows "\<not> isWeekend env z (slot_start s)"
proof
  assume wk: "isWeekend env z (slot_start s)"
  from engine_slot_free [OF assms(1,2,9,3)] assms(4,5,8)
  have "checkTimeAgainstAvailability env (slot_start s) (slot_end s) (Some av) (Some z)"
    by auto
  with wk obtain w' where "weekends av = Some w'" "available w' = Some True"
    unfolding check_unfold by auto
  with assms(6,7) show False by simp
qed

text \<open>
  C6, witness: Alice, asked for Friday 2024-01-05 to Saturday 2024-01-06: the slots
  returned are those of the Friday.
\<close>

theorem C6_no_weekend_slot_witness:
  "findGroupAvailability utcEnv bookedDb [''alice''] 19727 19728 30
     = Inr (generateTimeSlots 0 19727 19727 30)
   \<and> \<lparr>slot_start = clock 19727 9 30, slot_end = clock 19727 10 0\<rparr>
        \<in> set (generateTimeSlots 0 19727 19727 30)
   \<and> \<not> isWeekend utcEnv ''UTC'' (clock 19727 9 30)"
proof -
  have res: "findGroupAvailability utcEnv bookedDb [''alice''] 19727 19728 30
     = Inr (generateTimeSlots 0 19727 19727 30)"
    by code_simp
  have cals: "selectCalendars bookedDb [''alice''] = Some [aliceCal]"
    by (simp add: selectCalendars_def bookedDb_def aliceCal_def)
  have lastc: "lastCalendarOf [aliceCal] ''alice'' = Some aliceCal"
    by (simp add: lastCalendarOf_def aliceCal_def)
  have pat: "cal_availability aliceCal = Some officeHours"
            "timezone aliceCal = Some ''UTC''"
    by (simp_all add: aliceCal_def)
  have wkd: "weekends officeHours = Some \<lparr>available = Some False, w_start = None, w_end = None\<rparr>"
    by (simp add: officeHours_def)
  have mem: "\<lparr>slot_start = clock 19727 9 30, slot_end = clock 19727 10 0\<rparr>
        \<in> set (generateTimeSlots 0 19727 19727 30)"
    by code_simp
  from C6_no_weekend_slot [OF res cals _ lastc pat(1) wkd _ pat(2) mem]
  have "\<not> isWeekend utcEnv ''UTC'' (clock 19727 9 30)" by simp
  with res mem show ?thesis by simp
qed

subsection \<open>C7: a broken owner record\<close>

text \<open>
  C7, as stated, fails for a start text that is not a time: Dave's weekday window starts at
  the text \<open>garbage\<close>, which moment reads as 00:00, and the engine, asked for Alice and
  Dave on Monday 2024-01-01, returns every generated slot: Dave counts as available.
\<close>

theorem C7_counterexample:
  "lastCalendarOf [aliceCal, daveCal] ''dave'' = Some daveCal
   \<and> cal_availability daveCal = Some \<lparr>weekdays = Some garbledWeekdays, weekends = None\<rparr>
   \<and> w_start garbledWeekdays = Some ''garbage''
   \<and> findGroupAvailability utcEnv garbledDb [''alice'', ''dave''] 19723 19723 30
        = Inr (generateTimeSlots 0 19723 19723 30)
   \<and> \<lparr>slot_start = clock 19723 9 30, slot_end = clock 19723 10 0\<rparr>
        \<in> set (generateTimeSlots 0 19723 19723 30)"
proof -
  have "lastCalendarOf [aliceCal, daveCal] ''dave'' = Some daveCal"
    by (simp add: lastCalendarOf_def aliceCal_def daveCal_def)
  moreover have "cal_availability daveCal
                   = Some \<lparr>weekdays = Some garbledWeekdays, weekends = None\<rparr>"
    by (simp add: daveCal_def)
  moreover have "w_start garbledWeekdays = Some ''garbage''"
    by (simp add: garbledWeekdays_def)
  moreover have "findGroupAvailability utcEnv garbledDb [''alice'', ''dave''] 19723 19723 30
        = Inr (generateTimeSlots 0 19723 19723 30)"
    by code_simp
  moreover have "\<lparr>slot_start = clock 19723 9 30, slot_end = clock 19723 10 0\<rparr>
        \<in> set (generateTimeSlots 0 19723 19723 30)"
    by code_simp
  ultimately show ?thesis by blast
qed

text \<open>
  C7, amended: the engine throws only after a failed meetings query, never on account of
  what an owner record holds. When both queries succeed, and the record read for an owner
  of the request has no availability object, or no timezone, or a start or end text of
  the window in question that moment reads as an invalid date, the engine returns a list
  that does not hold the slot, and it goes on: the list holds exactly the generated slots
  that the last calendar of every owner accepts and that no meeting of that calendar
  conflicts with.
\<close>

theorem C7_broken_owner_is_unavailable:
  "((\<exists>err. findGroupAvailability env db userIds startDate endDate duration = Inl err)
      \<longleftrightarrow> meetings_error db
          \<and> (\<exists>rows. selectCalendars db userIds = Some rows \<and> rows \<noteq> []))
   \<and> (selectCalendars db userIds = Some cals
       \<and> selectMeetings db (map cal_id cals) startDate endDate = Some ms
       \<and> u \<in> set userIds \<and> lastCalendarOf cals u = Some cal
       \<and> (cal_availability cal = None \<or> timezone cal = None \<or> timezone cal = Some []
           \<or> (\<exists>av z w clockText. cal_availability cal = Some av \<and> timezone cal = Some z
                \<and> (if isWeekend env z (slot_start s) then weekends av else weekdays av) = Some w
                \<and> (w_start w = Some clockText \<or> w_end w = Some clockText)
                \<and> parseInZone env z (localDate env z (slot_start s)) clockText = None))
       \<longrightarrow> (\<exists>slots. findGroupAvailability env db userIds startDate endDate duration = Inr slots
              \<and> s \<notin> set slots
              \<and> (\<forall>t. t \<in> set slots \<longleftrightarrow>
                    t \<in> set (generateTimeSlots (serverOffset env) startDate endDate duration)
                    \<and> (\<forall>v\<in>set userIds.
                         (case lastCalendarOf cals v of
                            None \<Rightarrow> False
                          | Some c \<Rightarrow>
                              checkTimeAgainstAvailability env (slot_start t) (slot_end t)
                                (cal_availability c) (timezone c)
                              \<and> \<not> hasConflict t (filter (\<lambda>m. calendar_id m = cal_id c) ms))))))"
proof (intro conjI impI)
  show "(\<exists>err. findGroupAvailability env db userIds startDate endDate duration = Inl err)
      \<longleftrightarrow> meetings_error db
          \<and> (\<exists>rows. selectCalendars db userIds = Some rows \<and> rows \<noteq> [])"
  proof (cases "selectCalendars db userIds")
    case None
    then show ?thesis by (simp add: findGroupAvailability_def)
  next
    case (Some rows)
    then show ?thesis
      by (cases "rows = []")
         (simp_all add: findGroupAvailability_def selectMeetings_def)
  qed
next
  assume hyp: "selectCalendars db userIds = Some cals
       \<and> selectMeetings db (map cal_id cals) startDate endDate = Some ms
       \<and> u \<in> set userIds \<and> lastCalendarOf cals u = Some cal
       \<and> (cal_availability cal = None \<or> timezone cal = None \<or> timezone cal = Some []
           \<or> (\<exists>av z w clockText. cal_availability cal = Some av \<and> timezone cal = Some z
                \<and> (if isWeekend env z (slot_start s) then weekends av else weekdays av) = Some w
                \<and> (w_start w = Some clockText \<or> w_end w = Some clockText)
                \<and> parseInZone env z (localDate env z (slot_start s)) clockText = None))"
  then have cals: "selectCalendars db userIds = Some cals"
    and ms: "selectMeetings db (map cal_id cals) startDate endDate = Some ms"
    and u: "u \<in> set userIds" and cal: "lastCalendarOf cals u = Some cal"
    and broken: "cal_availability cal = None \<or> timezone cal = None \<or> timezone cal = Some []
           \<or> (\<exists>av z w clockText. cal_availability cal = Some av \<and> timezone cal = Some z
                \<and> (if isWeekend env z (slot_start s) then weekends av else weekdays av) = Some w
                \<and> (w_start w = Some clockText \<or> w_end w = Some clockText)
                \<and> parseInZone env z (localDate env z (slot_start s)) clockText = None)"
    by blast+
  from cal have ne: "cals \<noteq> []"
    by (auto simp add: lastCalendarOf_def)
  let ?accepted = "\<lambda>t. \<forall>v\<in>set userIds.
                         (case lastCalendarOf cals v of
                            None \<Rightarrow> False
                          | Some c \<Rightarrow>
                              checkTimeAgainstAvailability env (slot_start t) (slot_end t)
                                (cal_availability c) (timezone c)
                              \<and> \<not> hasConflict t (filter (\<lambda>m. calendar_id m = cal_id c) ms))"
  let ?slots = "filter ?accepted
                  (generateTimeSlots (serverOffset env) startDate endDate duration)"
  have res: "findGroupAvailability env db userIds startDate endDate duration = Inr ?slots"
    by (rule engine_last [OF cals ne ms])
  have rejected: "\<not> checkTimeAgainstAvailability env (slot_start s) (slot_end s)
                (cal_availability cal) (timezone cal)"
  proof
    assume ok: "checkTimeAgainstAvailability env (slot_start s) (slot_end s)
                (cal_availability cal) (timezone cal)"
    from broken show False
    proof (elim disjE exE conjE)
      assume "cal_availability cal = None"
      with ok show False by (simp add: check_None)
    next
      assume "timezone cal = None"
      with ok show False by (simp add: check_None)
    next
      assume "timezone cal = Some []"
      with ok show False by (simp add: check_None)
    next
      fix av z w clockText
      assume "cal_availability cal = Some av" "timezone cal = Some z"
        and "(if isWeekend env z (slot_start s) then weekends av else weekdays av) = Some w"
        and "parseInZone env z (localDate env z (slot_start s)) clockText = None"
        and "w_start w = Some clockText"
      with ok show False
        by (auto simp add: check_unfold isSameOrAfter_def)
    next
      fix av z w clockText
      assume "cal_availability cal = Some av" "timezone cal = Some z"
        and "(if isWeekend env z (slot_start s) then weekends av else weekdays av) = Some w"
        and "parseInZone env z (localDate env z (slot_start s)) clockText = None"
        and "w_end w = Some clockText"
      with ok show False
        by (auto simp add: check_unfold isSameOrBefore_def)
    qed
  qed
  with u cal have "\<not> ?accepted s" by force
  then have out: "s \<notin> set ?slots" by simp
  have exact: "\<forall>t. t \<in> set ?slots \<longleftrightarrow>
                    t \<in> set (generateTimeSlots (serverOffset env) startDate endDate duration)
                    \<and> ?accepted t"
    by simp
  from res out exact
  show "\<exists>slots. findGroupAvailability env db userIds startDate endDate duration = Inr slots
              \<and> s \<notin> set slots
              \<and> (\<forall>t. t \<in> set slots \<longleftrightarrow>
                    t \<in> set (generateTimeSlots (serverOffset env) startDate endDate duration)
                    \<and> ?accepted t)"
    by blast
qed

text \<open>
  C7, witness: Carol and Bob, asked for Friday 2024-01-05 to Saturday 2024-01-06. The
  start text of Bob's weekend window is read as an invalid date, so the Saturday slot at
  09:30 is not returned; the slots of the Friday are all returned.
\<close>

theorem C7_broken_owner_is_unavailable_witness:
  "lastCalendarOf [carolCal, bobCal] ''bob'' = Some bobCal
   \<and> w_start overflowWeekend = Some ''25:00 PM''
   \<and> parseInZone utcEnv ''UTC'' (localDate utcEnv ''UTC'' (clock 19728 9 30)) ''25:00 PM'' = None
   \<and> findGroupAvailability utcEnv weekendDb [''carol'', ''bob''] 19727 19728 30
        = Inr (generateTimeSlots 0 19727 19727 30)
   \<and> \<lparr>slot_start = clock 19728 9 30, slot_end = clock 19728 10 0\<rparr>
        \<notin> set (generateTimeSlots 0 19727 19727 30)
   \<and> \<lparr>slot_start = clock 19727 9 30, slot_end = clock 19727 10 0\<rparr>
        \<in> set (generateTimeSlots 0 19727 19727 30)"
proof -
  let ?sat = "\<lparr>slot_start = clock 19728 9 30, slot_end = clock 19728 10 0\<rparr>"
  have cals: "selectCalendars weekendDb [''carol'', ''bob''] = Some [carolCal, bobCal]"
    by (simp add: selectCalendars_def weekendDb_def carolCal_def bobCal_def)
  have ms: "selectMeetings weekendDb (map cal_id [carolCal, bobCal]) 19727 19728 = Some []"
    by (simp add: selectMeetings_def weekendDb_def)
  have lastc: "lastCalendarOf [carolCal, bobCal] ''bob'' = Some bobCal"
    by (simp add: lastCalendarOf_def carolCal_def bobCal_def)
  have wk: "isWeekend utcEnv ''UTC'' (slot_start ?sat)"
    by (simp add: isWeekend_def localDay_def wallClock_def utcEnv_def clock_def
        msPerDay_def msPerHour_def msPerMinute_def)
  have text25: "w_start overflowWeekend = Some ''25:00 PM''"
    by (simp add: overflowWeekend_def)
  have unread: "parseInZone utcEnv ''UTC'' (localDate utcEnv ''UTC'' (clock 19728 9 30))
                  ''25:00 PM'' = None"
    by (simp add: utcEnv_def clockMinutes_def)
  have broken: "cal_availability bobCal = None \<or> timezone bobCal = None
           \<or> timezone bobCal = Some []
           \<or> (\<exists>av z w clockText. cal_availability bobCal = Some av \<and> timezone bobCal = Some z
                \<and> (if isWeekend utcEnv z (slot_start ?sat) then weekends av else weekdays av)
                     = Some w
                \<and> (w_start w = Some clockText \<or> w_end w = Some clockText)
                \<and> parseInZone utcEnv z (localDate utcEnv z (slot_start ?sat)) clockText = None)"
  proof -
    have "cal_availability bobCal
            = Some \<lparr>weekdays = Some nineToFive, weekends = Some overflowWeekend\<rparr>"
         "timezone bobCal = Some ''UTC''"
      by (simp_all add: bobCal_def)
    moreover have "(if isWeekend utcEnv ''UTC'' (slot_start ?sat)
                    then weekends \<lparr>weekdays = Some nineToFive, weekends = Some overflowWeekend\<rparr>
                    else weekdays \<lparr>weekdays = Some nineToFive, weekends = Some overflowWeekend\<rparr>)
                   = Some overflowWeekend"
      using wk by simp
    moreover from unread
    have "parseInZone utcEnv ''UTC'' (localDate utcEnv ''UTC'' (slot_start ?sat)) ''25:00 PM''
            = None"
      by simp
    ultimately show ?thesis using text25 by blast
  qed
  have res: "findGroupAvailability utcEnv weekendDb [''carol'', ''bob''] 19727 19728 30
        = Inr (generateTimeSlots 0 19727 19727 30)"
    by code_simp
  have friday: "\<lparr>slot_start = clock 19727 9 30, slot_end = clock 19727 10 0\<rparr>
        \<in> set (generateTimeSlots 0 19727 19727 30)"
    by code_simp
  from C7_broken_owner_is_unavailable
    [where env = utcEnv and db = weekendDb and userIds = "[''carol'', ''bob'']"
       and startDate = 19727 and endDate = 19728 and duration = 30
       and cals = "[carolCal, bobCal]" and ms = "[]" and u = "''bob''" and cal = bobCal
       and s = ?sat]
    cals ms lastc broken
  obtain slots where "findGroupAvailability utcEnv weekendDb [''carol'', ''bob''] 19727 19728 30
                        = Inr slots" "?sat \<notin> set slots"
    by auto
  with res have "?sat \<notin> set (generateTimeSlots 0 19727 19727 30)"
    by simp
  with lastc text25 unread res friday show ?thesis by simp
qed

subsection \<open>C8: no owners\<close>

text \<open>
  C8: for every date range and duration, the engine called with an empty owner list
  returns the empty list, not an error, whether the calendars query fails or not.
\<close>

theorem C8_empty_owner_set:
  "findGroupAvailability env db [] startDate endDate duration = Inr []"
  by (simp add: findGroupAvailability_def selectCalendars_def)

subsection \<open>C9: an end date before the start date\<close>

text \<open>
  C9, as stated, fails: the engine asked for 2024-01-02 to 2024-01-01 returns the empty
  list, not an error.
\<close>

theorem C9_counterexample:
  "(19723::int) < 19724
   \<and> findGroupAvailability utcEnv bookedDb [''alice''] 19724 19723 30 = Inr []"
  by code_simp

text \<open>
  C9, amended: when the end date precedes the start date, the form handler
  \<open>processDateRangeForm\<close> rejects the request with its own message before anything is
  computed; \<open>findGroupAvailability\<close> itself does not check the dates: its generator yields
  no slot and, when the meetings query succeeds, its result is the empty list.
\<close>

theorem C9_reversed_range:
  assumes "endDate < startDate"
  shows "processDateRangeForm off (Some startDate) (Some endDate) sessions
           = Reply ''End date must be after start date.''
       \<and> generateTimeSlots off startDate endDate duration = []
       \<and> (\<not> meetings_error db
            \<longrightarrow> findGroupAvailability env db userIds startDate endDate duration = Inr [])"
proof -
  from assms have "endDate * msPerDay < startDate * msPerDay"
    by (simp add: msPerDay_def)
  then have form: "processDateRangeForm off (Some startDate) (Some endDate) sessions
           = Reply ''End date must be after start date.''"
    by (simp add: processDateRangeForm_def dateMoment_def)
  have gen: "\<And>off'. generateTimeSlots off' startDate endDate duration = []"
    using assms by (rule generateTimeSlots_reversed)
  have "\<not> meetings_error db
            \<longrightarrow> findGroupAvailability env db userIds startDate endDate duration = Inr []"
    by (simp add: findGroupAvailability_def selectMeetings_def gen split: option.splits)
  with form gen show ?thesis by blast
qed

text \<open>
  C9, witness: start 2024-01-02, end 2024-01-01.
\<close>

theorem C9_reversed_range_witness:
  "(19723::int) < 19724
   \<and> processDateRangeForm 0 (Some 19724) (Some 19723) HasEntry
           = Reply ''End date must be after start date.''
   \<and> generateTimeSlots 0 19724 19723 30 = []
   \<and> findGroupAvailability utcEnv bookedDb [''alice''] 19724 19723 30 = Inr []"
proof -
  have lt: "(19723::int) < 19724" by simp
  have ok: "\<not> meetings_error bookedDb" by (simp add: bookedDb_def)
  from C9_reversed_range [OF lt, where off = 0 and sessions = HasEntry and duration = 30
      and db = bookedDb and env = utcEnv and userIds = "[''alice'']"] ok lt
  show ?thesis by simp
qed

subsection \<open>C10: one calendar for each owner\<close>

text \<open>
  C10: when the two queries succeed and some calendar is fetched, the engine keeps a
  generated slot if and only if, for every owner of the request, the last fetched calendar
  of that owner accepts the slot and no fetched meeting of that calendar conflicts with
  it. So meetings on any other calendar do not count: adding such meetings to the store
  leaves the result as it is.
\<close>

theorem C10_last_calendar_only:
  assumes "selectCalendars db userIds = Some cals" and "cals \<noteq> []"
    and "selectMeetings db (map cal_id cals) startDate endDate = Some ms"
  shows "findGroupAvailability env db userIds startDate endDate duration =
           Inr (filter
                  (\<lambda>slot. \<forall>u\<in>set userIds.
                     (case lastCalendarOf cals u of
                        None \<Rightarrow> False
                      | Some cal \<Rightarrow>
                          checkTimeAgainstAvailability env (slot_start slot) (slot_end slot)
                            (cal_availability cal) (timezone cal)
                          \<and> \<not> hasConflict slot (filter (\<lambda>m. calendar_id m = cal_id cal) ms)))
                  (generateTimeSlots (serverOffset env) startDate endDate duration))
       \<and> (\<forall>extra.
            (\<forall>m\<in>set extra. \<forall>u\<in>set userIds. \<forall>cal.
                lastCalendarOf cals u = Some cal \<longrightarrow> calendar_id m \<noteq> cal_id cal)
            \<longrightarrow> findGroupAvailability env (db\<lparr>meetings_table := meetings_table db @ extra\<rparr>)
                  userIds startDate endDate duration
                = findGroupAvailability env db userIds startDate endDate duration)"
proof (intro conjI allI impI)
  show "findGroupAvailability env db userIds startDate endDate duration =
           Inr (filter
                  (\<lambda>slot. \<forall>u\<in>set userIds.
                     (case lastCalendarOf cals u of
                        None \<Rightarrow> False
                      | Some cal \<Rightarrow>
                          checkTimeAgainstAvailability env (slot_start slot) (slot_end slot)
                            (cal_availability cal) (timezone cal)
                          \<and> \<not> hasConflict slot (filter (\<lambda>m. calendar_id m = cal_id cal) ms)))
                  (generateTimeSlots (serverOffset env) startDate endDate duration))"
    by (rule engine_last [OF assms])
next
  fix extra :: "meeting list"
  assume other: "\<forall>m\<in>set extra. \<forall>u\<in>set userIds. \<forall>cal.
                lastCalendarOf cals u = Some cal \<longrightarrow> calendar_id m \<noteq> cal_id cal"
  let ?db = "db\<lparr>meetings_table := meetings_table db @ extra\<rparr>"
  have cals': "selectCalendars ?db userIds = Some cals"
    using assms(1) by (simp add: selectCalendars_def split: if_splits)
  obtain more where ms': "selectMeetings ?db (map cal_id cals) startDate endDate = Some (ms @ more)"
    and sub: "set more \<subseteq> set extra"
    using assms(3) by (auto simp add: selectMeetings_def split: if_splits)
  have same: "filter (\<lambda>m. calendar_id m = cal_id cal) (ms @ more)
                = filter (\<lambda>m. calendar_id m = cal_id cal) ms"
    if "u \<in> set userIds" "lastCalendarOf cals u = Some cal" for u cal
  proof -
    from other sub that have "\<forall>m\<in>set more. calendar_id m \<noteq> cal_id cal" by blast
    then have "filter (\<lambda>m. calendar_id m = cal_id cal) more = []"
      by (simp add: filter_empty_conv)
    then show ?thesis by simp
  qed
  have "(\<forall>u\<in>set userIds.
                     (case lastCalendarOf cals u of
                        None \<Rightarrow> False
                      | Some cal \<Rightarrow>
                          checkTimeAgainstAvailability env (slot_start slot) (slot_end slot)
                            (cal_availability cal) (timezone cal)
                          \<and> \<not> hasConflict slot (filter (\<lambda>m. calendar_id m = cal_id cal) (ms @ more))))
      = (\<forall>u\<in>set userIds.
                     (case lastCalendarOf cals u of
                        None \<Rightarrow> False
                      | Some cal \<Rightarrow>
                          checkTimeAgainstAvailability env (slot_start slot) (slot_end slot)
                            (cal_availability cal) (timezone cal)
                          \<and> \<not> hasConflict slot (filter (\<lambda>m. calendar_id m = cal_id cal) ms)))"
    for slot
    using same by (auto split: option.splits)
  then show "findGroupAvailability env ?db userIds startDate endDate duration
                = findGroupAvailability env db userIds startDate endDate duration"
    unfolding engine_last [OF cals' assms(2) ms'] engine_last [OF assms]
    by simp
qed

text \<open>
  C10, witness: Alice has two calendars, and the meeting from 10:00 to 11:00 is on the
  first; every generated slot of the Monday is returned, the one at 10:00 too.
\<close>

theorem C10_last_calendar_only_witness:
  "lastCalendarOf [aliceCal, aliceSecondCal] ''alice'' = Some aliceSecondCal
   \<and> calendar_id booking = cal_id aliceCal
   \<and> findGroupAvailability utcEnv twoCalendarDb [''alice''] 19723 19723 30
       = Inr (generateTimeSlots 0 19723 19723 30)
   \<and> \<lparr>slot_start = clock 19723 10 0, slot_end = clock 19723 10 30\<rparr>
        \<in> set (generateTimeSlots 0 19723 19723 30)"
proof -
  have cals: "selectCalendars twoCalendarDb [''alice''] = Some [aliceCal, aliceSecondCal]"
    by (simp add: selectCalendars_def twoCalendarDb_def aliceCal_def aliceSecondCal_def)
  have ne: "[aliceCal, aliceSecondCal] \<noteq> []" by simp
  have ms: "selectMeetings twoCalendarDb (map cal_id [aliceCal, aliceSecondCal]) 19723 19723
              = Some [booking]"
    by (simp add: selectMeetings_def twoCalendarDb_def aliceCal_def aliceSecondCal_def
        booking_def clock_def msPerDay_def msPerHour_def msPerMinute_def)
  have lastc: "lastCalendarOf [aliceCal, aliceSecondCal] ''alice'' = Some aliceSecondCal"
    by (simp add: lastCalendarOf_def aliceCal_def aliceSecondCal_def)
  have onfirst: "calendar_id booking = cal_id aliceCal"
    by (simp add: booking_def aliceCal_def)
  have all: "filter
                  (\<lambda>slot. \<forall>u\<in>set [''alice''].
                     (case lastCalendarOf [aliceCal, aliceSecondCal] u of
                        None \<Rightarrow> False
                      | Some cal \<Rightarrow>
                          checkTimeAgainstAvailability utcEnv (slot_start slot) (slot_end slot)
                            (cal_availability cal) (timezone cal)
                          \<and> \<not> hasConflict slot (filter (\<lambda>m. calendar_id m = cal_id cal) [booking])))
                  (generateTimeSlots (serverOffset utcEnv) 19723 19723 30)
             = generateTimeSlots 0 19723 19723 30"
    by code_simp
  have mem: "\<lparr>slot_start = clock 19723 10 0, slot_end = clock 19723 10 30\<rparr>
        \<in> set (generateTimeSlots 0 19723 19723 30)"
    by code_simp
  from C10_last_calendar_only [OF cals ne ms, where env = utcEnv and duration = 30] all
  have "findGroupAvailability utcEnv twoCalendarDb [''alice''] 19723 19723 30
       = Inr (generateTimeSlots 0 19723 19723 30)"
    by simp
  with lastc onfirst mem show ?thesis by simp
qed

end
